theory Spec2Isabelle
  imports Main
begin

section \<open>JavaScript values\<close>

text \<open>
  The values that travel through \<^verbatim>\<open>react/features/mobile/watchos/middleware.js\<close>:
  message fields coming from the watch, the session id, the conference URL. Only
  primitive values occur there. A number is an integer (the session id and the
  timestamps are integers) or \<open>NaN\<close>, the one number that is not strictly equal
  to itself.
\<close>

datatype jsval = JUndefined | JNull | JBool bool | JNum int | JNaN | JStr string

text \<open>ToBoolean, as used by \<^verbatim>\<open>if (x)\<close>, \<^verbatim>\<open>!x\<close>, \<^verbatim>\<open>x && y\<close> and \<^verbatim>\<open>x ? y : z\<close>.\<close>

fun truthy :: "jsval \<Rightarrow> bool" where
  "truthy JUndefined = False"
| "truthy JNull = False"
| "truthy (JBool b) = b"
| "truthy (JNum n) = (n \<noteq> 0)"
| "truthy JNaN = False"
| "truthy (JStr s) = (s \<noteq> [])"

text \<open>The operator \<^verbatim>\<open>===\<close>: same type and same value, no coercion; \<open>NaN\<close> equals nothing.\<close>

definition strict_eq :: "jsval \<Rightarrow> jsval \<Rightarrow> bool" where
  "strict_eq a b = (a = b \<and> a \<noteq> JNaN)"

text \<open>The operator \<^verbatim>\<open>typeof\<close>: it always yields a string.\<close>

fun typeof_js :: "jsval \<Rightarrow> string" where
  "typeof_js JUndefined = ''undefined''"
| "typeof_js JNull = ''object''"
| "typeof_js (JBool b) = ''boolean''"
| "typeof_js (JNum n) = ''number''"
| "typeof_js JNaN = ''number''"
| "typeof_js (JStr s) = ''string''"

text \<open>Decimal digits of a natural number, and ToString as a template literal applies it.\<close>

definition digit_char :: "nat \<Rightarrow> char" where
  "digit_char d = ''0123456789'' ! (d mod 10)"

fun show_nat :: "nat \<Rightarrow> string" where
  "show_nat n = (if n < 10 then [digit_char n] else show_nat (n div 10) @ [digit_char (n mod 10)])"

declare show_nat.simps [simp del]

definition show_int :: "int \<Rightarrow> string" where
  "show_int i = (if i < 0 then CHR ''-'' # show_nat (nat (- i)) else show_nat (nat i))"

fun to_string :: "jsval \<Rightarrow> string" where
  "to_string JUndefined = ''undefined''"
| "to_string JNull = ''null''"
| "to_string (JBool b) = (if b then ''true'' else ''false'')"
| "to_string (JNum n) = show_int n"
| "to_string JNaN = ''NaN''"
| "to_string (JStr s) = s"

text \<open>\<^verbatim>\<open>String.prototype.toLowerCase\<close> on the ASCII letters.\<close>

definition lower_char :: "char \<Rightarrow> char" where
  "lower_char c =
     (case map_of (zip ''ABCDEFGHIJKLMNOPQRSTUVWXYZ'' ''abcdefghijklmnopqrstuvwxyz'') c of
        None \<Rightarrow> c
      | Some l \<Rightarrow> l)"

definition toLowerCase :: "string \<Rightarrow> string" where
  "toLowerCase w = map lower_char w"

text \<open>
  \<^verbatim>\<open>Array.prototype.slice(start)\<close> with one argument: a negative \<open>start\<close> counts
  from the end (and stops at the first element), a non-negative one from the front.
  The result is a fresh array.
\<close>

definition slice_from :: "int \<Rightarrow> 'a list \<Rightarrow> 'a list" where
  "slice_from start xs =
     (let len = int (length xs);
          k = (if start < 0 then max (len + start) 0 else min start len)
      in drop (nat k) xs)"

section \<open>Data of the middleware\<close>

text \<open>
  The constants imported from \<^verbatim>\<open>./constants\<close>. That module is not among the sources, so
  they are parameters of every function that reads them.
\<close>

record constants =
  CMD_HANG_UP :: string
  CMD_JOIN_CONFERENCE :: string
  CMD_SET_MUTED :: string
  MAX_RECENT_URLS :: int

text \<open>
  The part of the redux state the middleware reads. \<open>features_recent_list\<close> is
  \<^verbatim>\<open>state['features/recent-list']\<close>, \<open>audio_muted\<close> is
  \<^verbatim>\<open>state['features/base/media'].audio.muted\<close>, the two \<open>watchos\<close> fields are
  \<^verbatim>\<open>state['features/mobile/watchos']\<close>. The helpers \<^verbatim>\<open>isInviteURLReady\<close>,
  \<^verbatim>\<open>getInviteURL\<close> and \<^verbatim>\<open>toURLString\<close> belong to other features: the state carries
  what they return, \<open>isInviteURLReady\<close> and \<open>inviteURLString\<close> (the value of
  \<^verbatim>\<open>toURLString(getInviteURL(state))\<close>, \<open>None\<close> for \<^verbatim>\<open>undefined\<close>).
\<close>

record 'e state =
  features_recent_list :: "'e list"
  audio_muted :: bool
  watchos_conferenceTimestamp :: jsval
  watchos_sessionID :: jsval
  isInviteURLReady :: bool
  inviteURLString :: "string option"

text \<open>A message of the watch: an object whose absent fields read as \<^verbatim>\<open>undefined\<close>.\<close>

record message =
  command :: jsval
  sessionID :: jsval
  data :: jsval
  muted :: jsval

text \<open>The object handed to \<^verbatim>\<open>watch.updateApplicationContext\<close>.\<close>

record 'e app_context =
  ctx_conferenceTimestamp :: jsval
  ctx_conferenceURL :: jsval
  ctx_micMuted :: bool
  ctx_recentURLs :: "'e list"
  ctx_sessionID :: jsval

text \<open>Exceptions, host actions and the observable effects of a callback.\<close>

datatype exn = TypeError | Failure string

datatype action =
    AppNavigate jsval
  | SetAudioMuted bool bool
  | SetSessionId
  | SetConferenceTimestamp int

datatype 'e effect =
    Dispatch action
  | LogError string exn
  | LogWarn string
  | UpdateApplicationContext "'e app_context"

text \<open>
  A computation yields the effects it performed, in order, and the exception that
  escaped it, if any.
\<close>

type_synonym 'e comp = "'e effect list \<times> exn option"

text \<open>
  The transport call \<^verbatim>\<open>watch.updateApplicationContext\<close> is external: \<open>send ctx\<close> is
  the exception it throws on \<open>ctx\<close> (while encoding or sending), \<open>None\<close> when it returns.
\<close>

type_synonym 'e transport = "'e app_context \<Rightarrow> exn option"

definition watch_updateApplicationContext :: "'e transport \<Rightarrow> 'e app_context \<Rightarrow> 'e comp" where
  "watch_updateApplicationContext send ctx = ([UpdateApplicationContext ctx], send ctx)"

definition logger_error :: "string \<Rightarrow> exn \<Rightarrow> 'e comp" where
  "logger_error msg e = ([LogError msg e], None)"

definition logger_warn :: "string \<Rightarrow> 'e comp" where
  "logger_warn msg = ([LogWarn msg], None)"

definition dispatch :: "action \<Rightarrow> 'e comp" where
  "dispatch a = ([Dispatch a], None)"

definition skip :: "'e comp" where
  "skip = ([], None)"

text \<open>\<^verbatim>\<open>try { body } catch (error) { handler(error) }\<close>\<close>

definition try_catch :: "'e comp \<Rightarrow> (exn \<Rightarrow> 'e comp) \<Rightarrow> 'e comp" where
  "try_catch body handler =
     (case snd body of
        None \<Rightarrow> body
      | Some e \<Rightarrow> (fst body @ fst (handler e), snd (handler e)))"

text \<open>The host actions and the transport calls among the effects of a computation.\<close>

fun dispatched :: "'e effect list \<Rightarrow> action list" where
  "dispatched [] = []"
| "dispatched (Dispatch a # es) = a # dispatched es"
| "dispatched (e # es) = dispatched es"

fun published :: "'e effect list \<Rightarrow> 'e app_context list" where
  "published [] = []"
| "published (UpdateApplicationContext c # es) = c # published es"
| "published (e # es) = published es"

section \<open>The selectors\<close>

text \<open>
  \<^verbatim>\<open>_getCurrentConferenceUrl\<close> (the leading underscore of the private functions is
  dropped). \<open>currentUrl\<close> stays \<^verbatim>\<open>undefined\<close> unless the invite URL is ready; a URL
  whose last character is a slash is replaced by \<^verbatim>\<open>undefined\<close>; a falsy
  \<open>currentUrl\<close> is returned as \<^verbatim>\<open>undefined\<close>.
\<close>

definition getCurrentConferenceUrl :: "'e state \<Rightarrow> jsval" where
  "getCurrentConferenceUrl s =
     (let currentUrl = (if isInviteURLReady s
                        then (case inviteURLString s of None \<Rightarrow> JUndefined | Some u \<Rightarrow> JStr u)
                        else JUndefined);
          currentUrl = (case currentUrl of
                          JStr u \<Rightarrow> (if truthy (JStr u) \<and> last u = CHR ''/''
                                     then JUndefined else JStr u)
                        | v \<Rightarrow> v)
      in if truthy currentUrl then currentUrl else JUndefined)"

definition getSessionId :: "'e state \<Rightarrow> jsval" where
  "getSessionId s = watchos_sessionID s"

text \<open>\<^verbatim>\<open>_getRecentUrls\<close>: \<^verbatim>\<open>slice(-MAX_RECENT_URLS)\<close>, then \<^verbatim>\<open>reverse()\<close> of the copy.\<close>

definition getRecentUrls :: "constants \<Rightarrow> 'e state \<Rightarrow> 'e list" where
  "getRecentUrls k s =
     (let reversedList = slice_from (- MAX_RECENT_URLS k) (features_recent_list s)
      in rev reversedList)"

definition isAudioMuted :: "'e state \<Rightarrow> bool" where
  "isAudioMuted s = audio_muted s"

section \<open>Publishing the context\<close>

definition make_context :: "constants \<Rightarrow> 'e state \<Rightarrow> 'e app_context" where
  "make_context k s =
     \<lparr> ctx_conferenceTimestamp = watchos_conferenceTimestamp s,
       ctx_conferenceURL = getCurrentConferenceUrl s,
       ctx_micMuted = isAudioMuted s,
       ctx_recentURLs = getRecentUrls k s,
       ctx_sessionID = watchos_sessionID s \<rparr>"

text \<open>\<^verbatim>\<open>_updateApplicationContext\<close>: the transport call inside \<^verbatim>\<open>try\<close>, the log in \<^verbatim>\<open>catch\<close>.\<close>

definition updateApplicationContext :: "'e transport \<Rightarrow> constants \<Rightarrow> 'e state \<Rightarrow> 'e comp" where
  "updateApplicationContext send k s =
     try_catch
       (watch_updateApplicationContext send (make_context k s))
       (\<lambda>error. logger_error ''Failed to stringify or send the context'' error)"

section \<open>The callbacks registered by \<^verbatim>\<open>_appWillMount\<close>\<close>

text \<open>
  The callback of \<^verbatim>\<open>watch.subscribeToWatchState\<close>. \<open>error\<close> is \<open>None\<close> for a falsy
  first argument. \<^verbatim>\<open>watchState.toLowerCase()\<close> raises a TypeError on anything but a
  string.
\<close>

definition onWatchState ::
  "'e transport \<Rightarrow> constants \<Rightarrow> 'e state \<Rightarrow> exn option \<Rightarrow> jsval \<Rightarrow> 'e comp" where
  "onWatchState send k s error watchState =
     (case error of
        Some e \<Rightarrow> logger_error ''Error getting watchState'' e
      | None \<Rightarrow>
          (case watchState of
             JStr w \<Rightarrow>
               (if strict_eq (JStr (toLowerCase w)) (JStr ''activated'')
                then updateApplicationContext send k s
                else skip)
           | _ \<Rightarrow> ([], Some TypeError)))"

text \<open>
  The callback of \<^verbatim>\<open>watch.subscribeToMessages\<close>. The \<^verbatim>\<open>switch\<close> compares \<open>command\<close>
  with each constant by \<^verbatim>\<open>===\<close>, in the order of the cases. The hang-up case tests
  \<^verbatim>\<open>typeof _getCurrentConferenceUrl(getState()) !== undefined\<close>: the string that
  \<^verbatim>\<open>typeof\<close> yields against the value \<^verbatim>\<open>undefined\<close>.
\<close>

definition outdated_warning :: "jsval \<Rightarrow> jsval \<Rightarrow> jsval \<Rightarrow> string" where
  "outdated_warning cmd sid cur =
     ''Ignoring outdated watch command: '' @ to_string cmd
       @ '' sessionID: '' @ to_string sid
       @ '' current session ID: '' @ to_string cur"

definition onMessage :: "constants \<Rightarrow> 'e state \<Rightarrow> exn option \<Rightarrow> message \<Rightarrow> 'e comp" where
  "onMessage k s error m =
     (case error of
        Some e \<Rightarrow> logger_error ''watch.subscribeToMessages error:'' e
      | None \<Rightarrow>
          (let currentSessionID = getSessionId s in
           if \<not> truthy (sessionID m) \<or> \<not> strict_eq (sessionID m) currentSessionID
           then logger_warn (outdated_warning (command m) (sessionID m) currentSessionID)
           else if strict_eq (command m) (JStr (CMD_HANG_UP k)) then
             (if \<not> strict_eq (JStr (typeof_js (getCurrentConferenceUrl s))) JUndefined
              then dispatch (AppNavigate JUndefined)
              else skip)
           else if strict_eq (command m) (JStr (CMD_JOIN_CONFERENCE k)) then
             (let newConferenceURL = data m;
                  oldConferenceURL = getCurrentConferenceUrl s
              in if \<not> strict_eq oldConferenceURL newConferenceURL
                 then dispatch (AppNavigate newConferenceURL)
                 else skip)
           else if strict_eq (command m) (JStr (CMD_SET_MUTED k)) then
             dispatch (SetAudioMuted (strict_eq (muted m) (JStr ''true'')) True)
           else skip))"

section \<open>The state listeners and the middleware\<close>

text \<open>
  The three listeners registered with \<^verbatim>\<open>StateListenerRegistry\<close>. The listener of
  the conference URL dispatches \<^verbatim>\<open>setSessionId()\<close> and then publishes the state it
  reads after that dispatch. The reducers of the host are not among the sources:
  \<open>reduce\<close> is what the store does with an action.
\<close>

type_synonym 'e reducer = "action \<Rightarrow> 'e state \<Rightarrow> 'e state"

definition then_do :: "'e comp \<Rightarrow> 'e comp \<Rightarrow> 'e comp" where
  "then_do c1 c2 = (case snd c1 of None \<Rightarrow> (fst c1 @ fst c2, snd c2) | Some e \<Rightarrow> c1)"

definition recentListListener :: "'e transport \<Rightarrow> constants \<Rightarrow> 'e state \<Rightarrow> 'e comp" where
  "recentListListener send k s = updateApplicationContext send k s"

definition audioMutedListener :: "'e transport \<Rightarrow> constants \<Rightarrow> 'e state \<Rightarrow> 'e comp" where
  "audioMutedListener send k s = updateApplicationContext send k s"

definition conferenceUrlListener ::
  "'e reducer \<Rightarrow> 'e transport \<Rightarrow> constants \<Rightarrow> 'e state \<Rightarrow> 'e comp" where
  "conferenceUrlListener reduce send k s =
     then_do (dispatch SetSessionId) (updateApplicationContext send k (reduce SetSessionId s))"

text \<open>
  The middleware on \<^verbatim>\<open>CONFERENCE_JOINED\<close>: it dispatches the timestamp \<open>now\<close>
  (\<^verbatim>\<open>new Date().getTime()\<close>) and publishes the state read after that dispatch.
\<close>

definition onConferenceJoined ::
  "'e reducer \<Rightarrow> 'e transport \<Rightarrow> constants \<Rightarrow> int \<Rightarrow> 'e state \<Rightarrow> 'e comp" where
  "onConferenceJoined reduce send k now s =
     then_do (dispatch (SetConferenceTimestamp now))
       (updateApplicationContext send k (reduce (SetConferenceTimestamp now) s))"

text \<open>
  Modelled from the spec: \<^verbatim>\<open>StateListenerRegistry\<close> (\<^verbatim>\<open>base/redux\<close>) is not among the
  sources. The spec has the host store notify a subscriber of a selector when the
  selected value changed, comparing against the previously observed value, in the order
  mutations were committed. \<open>selections\<close> holds the value each of the three selectors
  returned last; \<open>notify\<close> is one notification of the store in state \<open>s\<close>, running the
  listeners in the order of their registration.
\<close>

record 'e selections =
  sel_recent_list :: "'e list"
  sel_muted :: bool
  sel_url :: jsval

definition select_all :: "'e state \<Rightarrow> 'e selections" where
  "select_all s =
     \<lparr> sel_recent_list = features_recent_list s,
       sel_muted = isAudioMuted s,
       sel_url = getCurrentConferenceUrl s \<rparr>"

definition notify ::
  "'e reducer \<Rightarrow> 'e transport \<Rightarrow> constants \<Rightarrow> 'e selections \<Rightarrow> 'e state \<Rightarrow> 'e effect list" where
  "notify reduce send k prev s =
     (if sel_recent_list prev = features_recent_list s then []
      else fst (recentListListener send k s))
     @ (if sel_muted prev = isAudioMuted s then []
        else fst (audioMutedListener send k s))
     @ (if strict_eq (sel_url prev) (getCurrentConferenceUrl s) then []
        else fst (conferenceUrlListener reduce send k s))"

text \<open>
  Modelled from the spec: the action creators and the reducer of the feature
  (\<^verbatim>\<open>./actions\<close> and its reducer) are not among the sources. The spec has
  \<^verbatim>\<open>setSessionId()\<close> assign a new session id, an integer that a counter may produce,
  distinguishable from the ids before it; \<open>new_session_id\<close> is that counter (a session
  id that is no number is followed by 0). The conference timestamp is stamped with the
  time of the join. The other actions belong to the host and leave the state of the
  feature alone.
\<close>

definition new_session_id :: "jsval \<Rightarrow> jsval" where
  "new_session_id v = (case v of JNum n \<Rightarrow> JNum (n + 1) | _ \<Rightarrow> JNum 0)"

fun watchos_reduce :: "'e reducer" where
  "watchos_reduce SetSessionId s =
     s \<lparr> watchos_sessionID := new_session_id (watchos_sessionID s) \<rparr>"
| "watchos_reduce (SetConferenceTimestamp t) s = s \<lparr> watchos_conferenceTimestamp := JNum t \<rparr>"
| "watchos_reduce a s = s"

text \<open>
  Modelled from the spec: the host store is not among the sources. The host owns the
  recent list, the mute flag and the invite URL, and a mutation it commits rewrites
  one of them; the session id is written by nothing but \<^verbatim>\<open>setSessionId()\<close>. A store
  holds the current state and what the registry observed last. One step commits a
  mutation, notifies the listeners, and applies the actions they dispatched; a run
  makes one step for each mutation and yields the store after each.
\<close>

datatype 'e mutation =
    EditRecentList "'e list"
  | SetMutedFlag bool
  | SetInviteURL bool "string option"

fun commit :: "'e mutation \<Rightarrow> 'e state \<Rightarrow> 'e state" where
  "commit (EditRecentList xs) s = s \<lparr> features_recent_list := xs \<rparr>"
| "commit (SetMutedFlag b) s = s \<lparr> audio_muted := b \<rparr>"
| "commit (SetInviteURL r u) s = s \<lparr> isInviteURLReady := r, inviteURLString := u \<rparr>"

record 'e store =
  observed :: "'e selections"
  current :: "'e state"

definition init_store :: "'e state \<Rightarrow> 'e store" where
  "init_store s = \<lparr> observed = select_all s, current = s \<rparr>"

definition store_step ::
  "'e transport \<Rightarrow> constants \<Rightarrow> 'e store \<Rightarrow> 'e mutation \<Rightarrow> 'e store \<times> 'e effect list" where
  "store_step send k st mu =
     (let s1 = commit mu (current st);
          es = notify watchos_reduce send k (observed st) s1;
          s2 = foldl (\<lambda>s a. watchos_reduce a s) s1 (dispatched es)
      in (\<lparr> observed = select_all s1, current = s2 \<rparr>, es))"

fun store_run ::
  "'e transport \<Rightarrow> constants \<Rightarrow> 'e store \<Rightarrow> 'e mutation list \<Rightarrow> 'e store list" where
  "store_run send k st [] = []"
| "store_run send k st (mu # mus) =
     fst (store_step send k st mu) # store_run send k (fst (store_step send k st mu)) mus"

text \<open>The number of adjacent pairs of a sequence that differ.\<close>

fun changes :: "'a list \<Rightarrow> nat" where
  "changes (x # y # xs) = (if x = y then 0 else 1) + changes (y # xs)"
| "changes xs = 0"

text \<open>For each adjacent pair of a sequence, whether the two differ.\<close>

fun change_flags :: "'a list \<Rightarrow> bool list" where
  "change_flags (x # y # xs) = (x \<noteq> y) # change_flags (y # xs)"
| "change_flags xs = []"

text \<open>A string ends with a slash: its last character is \<open>/\<close>.\<close>

definition endsWithSlash :: "string \<Rightarrow> bool" where
  "endsWithSlash u = (case rev u of [] \<Rightarrow> False | c # cs \<Rightarrow> c = CHR ''/'')"

section \<open>Sample data\<close>

text \<open>
  Data for the closed examples: values for the constants of \<^verbatim>\<open>./constants\<close> (three
  distinct command names and the bound 3 of the spec's example), a transport that
  works and one that fails, a state with no conference and session 5, and a state
  in a conference, muted, with session 7.
\<close>

definition sample_constants :: constants where
  "sample_constants =
     \<lparr> CMD_HANG_UP = ''HANG_UP'', CMD_JOIN_CONFERENCE = ''JOIN_CONFERENCE'',
       CMD_SET_MUTED = ''SET_MUTED'', MAX_RECENT_URLS = 3 \<rparr>"

definition send_ok :: "string transport" where
  "send_ok ctx = None"

definition send_fails :: "string transport" where
  "send_fails ctx = Some (Failure ''not reachable'')"

definition idle_state :: "string state" where
  "idle_state =
     \<lparr> features_recent_list = [''a'', ''b'', ''c'', ''d'', ''e''],
       audio_muted = False,
       watchos_conferenceTimestamp = JUndefined,
       watchos_sessionID = JNum 5,
       isInviteURLReady = False,
       inviteURLString = None \<rparr>"

definition in_conference :: "string \<Rightarrow> string state" where
  "in_conference u = idle_state \<lparr> isInviteURLReady := True, inviteURLString := Some u \<rparr>"

definition call_state :: "string state" where
  "call_state =
     \<lparr> features_recent_list = [''a'', ''b'', ''c'', ''d'', ''e''],
       audio_muted = True,
       watchos_conferenceTimestamp = JNum 1000,
       watchos_sessionID = JNum 7,
       isInviteURLReady = True,
       inviteURLString = Some ''https://x/room'' \<rparr>"

definition sample_message :: "string \<Rightarrow> jsval \<Rightarrow> message" where
  "sample_message c sid = \<lparr> command = JStr c, sessionID = sid, data = JUndefined, muted = JUndefined \<rparr>"

section \<open>Basic facts\<close>

subsection \<open>Strict equality\<close>

lemma strict_eq_JStr [simp]: "strict_eq (JStr a) b = (b = JStr a)"
  by (auto simp: strict_eq_def)

lemma strict_eq_JStr2 [simp]: "strict_eq a (JStr b) = (a = JStr b)"
  by (auto simp: strict_eq_def)

lemma strict_eq_JUndefined [simp]: "strict_eq JUndefined b = (b = JUndefined)"
  by (auto simp: strict_eq_def)

lemma typeof_differs_not_strict_eq: "typeof_js a \<noteq> typeof_js b \<Longrightarrow> \<not> strict_eq a b"
  by (auto simp: strict_eq_def)

subsection \<open>The conference URL\<close>

lemma endsWithSlash_last: "endsWithSlash u = (u \<noteq> [] \<and> last u = CHR ''/'')"
  by (cases u rule: rev_cases) (simp_all add: endsWithSlash_def)

lemma current_url_cases:
  "getCurrentConferenceUrl s =
     (if isInviteURLReady s
      then (case inviteURLString s of
              None \<Rightarrow> JUndefined
            | Some u \<Rightarrow> if u = [] \<or> last u = CHR ''/'' then JUndefined else JStr u)
      else JUndefined)"
proof (cases "isInviteURLReady s")
  case False
  then show ?thesis by (simp add: getCurrentConferenceUrl_def Let_def)
next
  case True
  show ?thesis
  proof (cases "inviteURLString s")
    case None
    with True show ?thesis by (simp add: getCurrentConferenceUrl_def Let_def)
  next
    case (Some u)
    with True show ?thesis by (simp add: getCurrentConferenceUrl_def Let_def)
  qed
qed

lemma current_url_not_NaN: "getCurrentConferenceUrl s \<noteq> JNaN"
  by (simp add: current_url_cases split: option.split)

lemma strict_eq_current_url:
  "strict_eq (getCurrentConferenceUrl s) v = (getCurrentConferenceUrl s = v)"
  using current_url_not_NaN [of s] by (simp add: strict_eq_def)

subsection \<open>The message callback, by the outcome of the session check\<close>

lemma accepted_message:
  assumes "truthy (sessionID m)" and "strict_eq (sessionID m) (watchos_sessionID s)"
  shows "onMessage k s None m =
     (if strict_eq (command m) (JStr (CMD_HANG_UP k)) then dispatch (AppNavigate JUndefined)
      else if strict_eq (command m) (JStr (CMD_JOIN_CONFERENCE k)) then
        (if getCurrentConferenceUrl s = data m then skip else dispatch (AppNavigate (data m)))
      else if strict_eq (command m) (JStr (CMD_SET_MUTED k)) then
        dispatch (SetAudioMuted (muted m = JStr ''true'') True)
      else skip)"
  using assms
  by (simp add: onMessage_def getSessionId_def Let_def strict_eq_current_url)

lemma rejected_message:
  assumes "\<not> truthy (sessionID m) \<or> \<not> strict_eq (sessionID m) (watchos_sessionID s)"
  shows "onMessage k s None m =
     ([LogWarn (''Ignoring outdated watch command: '' @ to_string (command m)
                 @ '' sessionID: '' @ to_string (sessionID m)
                 @ '' current session ID: '' @ to_string (watchos_sessionID s))], None)"
  using assms
  by (auto simp add: onMessage_def getSessionId_def Let_def logger_warn_def outdated_warning_def)

section \<open>The command dispatcher\<close>

text \<open>
  C1 (idempotent hang-up). The claim: a \<open>HangUp\<close> with the current session id processed
  while no conference URL is active dispatches no navigation; \<^verbatim>\<open>appNavigate(undefined)\<close>
  is dispatched only if an active URL exists. The code does not do that: the guard of the
  hang-up case compares the string \<^verbatim>\<open>typeof ...\<close> with the value \<^verbatim>\<open>undefined\<close>, which
  never are strictly equal, so every accepted hang-up dispatches
  \<^verbatim>\<open>appNavigate(undefined)\<close>, whatever the conference URL is. The theorem states what
  the code does; its instance below is a state with no active URL.
\<close>

theorem hang_up_navigates_unconditionally:
  assumes "truthy (sessionID m)"
    and "strict_eq (sessionID m) (watchos_sessionID s)"
    and "command m = JStr (CMD_HANG_UP k)"
  shows "onMessage k s None m = ([Dispatch (AppNavigate JUndefined)], None)"
  using assms by (simp add: accepted_message dispatch_def)

theorem hang_up_navigates_unconditionally_witness:
  "getCurrentConferenceUrl idle_state = JUndefined
   \<and> sessionID (sample_message ''HANG_UP'' (JNum 5)) = watchos_sessionID idle_state
   \<and> dispatched (fst (onMessage sample_constants idle_state None (sample_message ''HANG_UP'' (JNum 5))))
       = [AppNavigate JUndefined]"
  using hang_up_navigates_unconditionally
    [of "sample_message ''HANG_UP'' (JNum 5)" idle_state sample_constants]
  by (simp add: sample_message_def idle_state_def sample_constants_def current_url_cases
      strict_eq_def)

text \<open>
  C2 (staleness rejection). Whatever the command, a message delivered without a transport
  error whose \<open>sessionID\<close> is absent or differs from the current one produces exactly one
  effect, the warning that names the command, the message's session id and the current
  session id, and dispatches no action. The state is arbitrary, so this covers a message
  that was current once and is resubmitted after the session id of the state has changed.
\<close>

theorem stale_message_rejected:
  assumes "sessionID m = JUndefined \<or> sessionID m \<noteq> watchos_sessionID s"
  shows "onMessage k s None m =
           ([LogWarn (''Ignoring outdated watch command: '' @ to_string (command m)
                       @ '' sessionID: '' @ to_string (sessionID m)
                       @ '' current session ID: '' @ to_string (watchos_sessionID s))], None)
         \<and> dispatched (fst (onMessage k s None m)) = []"
proof -
  from assms have "\<not> truthy (sessionID m) \<or> \<not> strict_eq (sessionID m) (watchos_sessionID s)"
    by (auto simp: strict_eq_def)
  then show ?thesis
    by (simp add: rejected_message)
qed

theorem stale_message_rejected_witness:
  "onMessage sample_constants idle_state None (sample_message ''HANG_UP'' (JNum 4))
     = ([LogWarn ''Ignoring outdated watch command: HANG_UP sessionID: 4 current session ID: 5''], None)
   \<and> onMessage sample_constants idle_state None (sample_message ''JOIN_CONFERENCE'' (JNum 4))
     = ([LogWarn ''Ignoring outdated watch command: JOIN_CONFERENCE sessionID: 4 current session ID: 5''], None)
   \<and> onMessage sample_constants idle_state None (sample_message ''SET_MUTED'' JUndefined)
     = ([LogWarn ''Ignoring outdated watch command: SET_MUTED sessionID: undefined current session ID: 5''], None)"
  using stale_message_rejected [of "sample_message ''HANG_UP'' (JNum 4)" idle_state sample_constants]
    stale_message_rejected [of "sample_message ''JOIN_CONFERENCE'' (JNum 4)" idle_state sample_constants]
    stale_message_rejected [of "sample_message ''SET_MUTED'' JUndefined" idle_state sample_constants]
  by (simp add: sample_message_def idle_state_def show_int_def show_nat.simps digit_char_def
      strict_eq_def)

section \<open>The snapshot publisher\<close>

subsection \<open>Effects of a publish\<close>

lemma dispatched_append: "dispatched (es @ fs) = dispatched es @ dispatched fs"
  by (induction es rule: dispatched.induct) simp_all

lemma update_context_effects:
  "updateApplicationContext send k s =
     (case send (make_context k s) of
        None \<Rightarrow> ([UpdateApplicationContext (make_context k s)], None)
      | Some e \<Rightarrow> ([UpdateApplicationContext (make_context k s),
                    LogError ''Failed to stringify or send the context'' e], None))"
  by (simp add: updateApplicationContext_def try_catch_def watch_updateApplicationContext_def
      logger_error_def split: option.split)

lemma update_context_dispatches_nothing:
  "dispatched (fst (updateApplicationContext send k s)) = []"
  by (simp add: update_context_effects split: option.split)

lemma update_context_published:
  "published (fst (updateApplicationContext send k s)) = [make_context k s]"
  by (simp add: update_context_effects split: option.split)

lemma update_context_returns: "snd (updateApplicationContext send k s) = None"
  by (simp add: update_context_effects split: option.split)

lemma slice_from_last: "0 < n \<Longrightarrow> slice_from (- n) xs = drop (length xs - nat n) xs"
  by (cases "int (length xs) - n < 0")
    (simp_all add: slice_from_def Let_def max_def nat_diff_distrib')

text \<open>
  C4 (recent-list projection). For a positive bound \<open>MAX_RECENT_URLS\<close>, the published
  list is the last \<open>MAX_RECENT_URLS\<close> entries of the recent list, reversed: truncation
  first, then reversal, which are the first \<open>MAX_RECENT_URLS\<close> entries of the reversed
  list. The bound is a constant the sources do not give; the instance below is the
  spec's example, entries a to e with bound 3.
\<close>

theorem recent_urls_projection:
  assumes "0 < MAX_RECENT_URLS k"
  shows "getRecentUrls k s =
           rev (drop (length (features_recent_list s) - nat (MAX_RECENT_URLS k))
                  (features_recent_list s))
       \<and> getRecentUrls k s = take (nat (MAX_RECENT_URLS k)) (rev (features_recent_list s))
       \<and> ctx_recentURLs (make_context k s) = getRecentUrls k s
       \<and> int (length (getRecentUrls k s)) \<le> MAX_RECENT_URLS k"
  using assms by (auto simp: getRecentUrls_def slice_from_last take_rev make_context_def)

theorem recent_urls_projection_witness:
  "0 < MAX_RECENT_URLS sample_constants
   \<and> features_recent_list idle_state = [''a'', ''b'', ''c'', ''d'', ''e'']
   \<and> MAX_RECENT_URLS sample_constants = 3
   \<and> getRecentUrls sample_constants idle_state = [''e'', ''d'', ''c'']"
  using recent_urls_projection [of sample_constants idle_state]
  by (simp add: sample_constants_def idle_state_def)

text \<open>
  The bound has to be positive: \<^verbatim>\<open>slice(-0)\<close> is \<^verbatim>\<open>slice(0)\<close>, the whole array.
\<close>

lemma recent_urls_zero_bound:
  "MAX_RECENT_URLS k = 0 \<Longrightarrow> getRecentUrls k s = rev (features_recent_list s)"
  by (simp add: getRecentUrls_def slice_from_def)

text \<open>
  C5 (URL canonicalization). The claim: the URL is \<^verbatim>\<open>undefined\<close> when the invite URL is
  not ready or the URL string ends with a slash, and otherwise the URL string is
  returned unchanged. The last line of the function returns \<^verbatim>\<open>undefined\<close> for every
  falsy \<open>currentUrl\<close>, so the empty string, which does not end with a slash, is not
  returned unchanged.
\<close>

theorem empty_url_counterexample:
  "isInviteURLReady (in_conference '''')
   \<and> inviteURLString (in_conference '''') = Some ''''
   \<and> \<not> endsWithSlash ''''
   \<and> getCurrentConferenceUrl (in_conference '''') = JUndefined
   \<and> getCurrentConferenceUrl (in_conference '''') \<noteq> JStr ''''"
  by (simp add: in_conference_def idle_state_def current_url_cases endsWithSlash_def)

text \<open>
  C5 as amended: the URL is \<^verbatim>\<open>undefined\<close> when the invite URL is not ready, when the
  derived URL string is absent or empty, or when it ends with a slash; in every other
  case it is the derived URL string, unchanged. The context that is published carries
  that value.
\<close>

theorem current_url_canonical:
  "getCurrentConferenceUrl s =
     (if isInviteURLReady s
      then (case inviteURLString s of
              None \<Rightarrow> JUndefined
            | Some u \<Rightarrow> if u = [] \<or> endsWithSlash u then JUndefined else JStr u)
      else JUndefined)
   \<and> ctx_conferenceURL (make_context k s) = getCurrentConferenceUrl s"
  by (simp add: current_url_cases endsWithSlash_last make_context_def split: option.split)

lemma current_url_examples:
  "getCurrentConferenceUrl (in_conference ''https://x/room/'') = JUndefined"
  "getCurrentConferenceUrl (in_conference ''https://x/room'') = JStr ''https://x/room''"
  by (simp_all add: in_conference_def idle_state_def current_url_cases)

text \<open>
  C8 (reconnect recovery). When the activation callback is called without error and
  with a string whose lower-case form is \<open>activated\<close>, it calls the transport once
  and returns normally. What it hands over is the whole snapshot of the current state:
  the conference timestamp and the session id of the feature, the canonical conference
  URL, the mute flag, and the last \<open>MAX_RECENT_URLS\<close> entries of the recent list,
  newest first. The callback reads nothing but the current state: what the state
  listeners saw last plays no part.
\<close>

theorem activated_publishes_once:
  assumes "toLowerCase w = ''activated''"
  shows "published (fst (onWatchState send k s None (JStr w))) =
           [\<lparr> ctx_conferenceTimestamp = watchos_conferenceTimestamp s,
              ctx_conferenceURL =
                (if isInviteURLReady s
                 then (case inviteURLString s of
                         None \<Rightarrow> JUndefined
                       | Some u \<Rightarrow> if u = [] \<or> endsWithSlash u then JUndefined else JStr u)
                 else JUndefined),
              ctx_micMuted = audio_muted s,
              ctx_recentURLs = rev (slice_from (- MAX_RECENT_URLS k) (features_recent_list s)),
              ctx_sessionID = watchos_sessionID s \<rparr>]
       \<and> dispatched (fst (onWatchState send k s None (JStr w))) = []
       \<and> snd (onWatchState send k s None (JStr w)) = None"
proof -
  have url: "getCurrentConferenceUrl s =
      (if isInviteURLReady s
       then (case inviteURLString s of
               None \<Rightarrow> JUndefined
             | Some u \<Rightarrow> if u = [] \<or> endsWithSlash u then JUndefined else JStr u)
       else JUndefined)"
    by (simp add: current_url_cases endsWithSlash_last split: option.split)
  have "published (fst (onWatchState send k s None (JStr w))) = [make_context k s]"
    using assms by (simp add: onWatchState_def update_context_published)
  moreover have "make_context k s =
      \<lparr> ctx_conferenceTimestamp = watchos_conferenceTimestamp s,
        ctx_conferenceURL = getCurrentConferenceUrl s,
        ctx_micMuted = audio_muted s,
        ctx_recentURLs = rev (slice_from (- MAX_RECENT_URLS k) (features_recent_list s)),
        ctx_sessionID = watchos_sessionID s \<rparr>"
    by (simp add: make_context_def isAudioMuted_def getRecentUrls_def)
  moreover have "dispatched (fst (onWatchState send k s None (JStr w))) = []"
    using assms by (simp add: onWatchState_def update_context_dispatches_nothing)
  moreover have "snd (onWatchState send k s None (JStr w)) = None"
    using assms by (simp add: onWatchState_def update_context_returns)
  ultimately show ?thesis
    using url by simp
qed

theorem activated_publishes_once_witness:
  "toLowerCase ''Activated'' = ''activated''
   \<and> published (fst (onWatchState send_ok sample_constants call_state None (JStr ''Activated'')))
       = [\<lparr> ctx_conferenceTimestamp = JNum 1000,
            ctx_conferenceURL = JStr ''https://x/room'',
            ctx_micMuted = True,
            ctx_recentURLs = [''e'', ''d'', ''c''],
            ctx_sessionID = JNum 7 \<rparr>]
   \<and> published (fst (onWatchState send_ok sample_constants idle_state None (JStr ''ACTIVATED'')))
       = [\<lparr> ctx_conferenceTimestamp = JUndefined,
            ctx_conferenceURL = JUndefined,
            ctx_micMuted = False,
            ctx_recentURLs = [''e'', ''d'', ''c''],
            ctx_sessionID = JNum 5 \<rparr>]"
  using activated_publishes_once [of "''Activated''" send_ok sample_constants call_state]
    activated_publishes_once [of "''ACTIVATED''" send_ok sample_constants idle_state]
  by (simp add: toLowerCase_def lower_char_def call_state_def idle_state_def
      sample_constants_def slice_from_def endsWithSlash_def)

text \<open>
  C9 (publish failure). Whatever the transport call does, \<open>updateApplicationContext\<close>
  returns normally and dispatches no action, so it changes nothing of the host state;
  an exception of the transport call is logged, once, after the call.
\<close>

theorem publish_failure_contained:
  "snd (updateApplicationContext send k s) = None
   \<and> dispatched (fst (updateApplicationContext send k s)) = []
   \<and> (\<forall>e. send (make_context k s) = Some e \<longrightarrow>
         fst (updateApplicationContext send k s) =
           [UpdateApplicationContext (make_context k s),
            LogError ''Failed to stringify or send the context'' e])"
proof -
  have "fst (updateApplicationContext send k s) =
          [UpdateApplicationContext (make_context k s),
           LogError ''Failed to stringify or send the context'' e]"
    if "send (make_context k s) = Some e" for e
    using that by (simp add: update_context_effects)
  then show ?thesis
    using update_context_returns [of send k s] update_context_dispatches_nothing [of send k s]
    by blast
qed

theorem publish_failure_contained_witness:
  "send_fails (make_context sample_constants idle_state) = Some (Failure ''not reachable'')
   \<and> updateApplicationContext send_fails sample_constants idle_state =
       ([UpdateApplicationContext (make_context sample_constants idle_state),
         LogError ''Failed to stringify or send the context'' (Failure ''not reachable'')], None)"
  using publish_failure_contained [of send_fails sample_constants idle_state]
  by (simp add: send_fails_def prod_eq_iff)

section \<open>Accepted commands\<close>

text \<open>
  C6 (idempotent join). An accepted \<open>JoinResource\<close> message dispatches nothing when its
  \<open>data\<close> is the current conference URL, and exactly \<^verbatim>\<open>appNavigate(data)\<close> otherwise;
  the join command is taken to differ from the hang-up command, which the \<^verbatim>\<open>switch\<close>
  tests first. A join whose URL is the current one leaves the state as it is, so the
  same message processed again dispatches nothing either.
\<close>

theorem join_navigates_only_if_different:
  assumes "truthy (sessionID m)"
    and "strict_eq (sessionID m) (watchos_sessionID s)"
    and "command m = JStr (CMD_JOIN_CONFERENCE k)"
    and "CMD_JOIN_CONFERENCE k \<noteq> CMD_HANG_UP k"
  shows "dispatched (fst (onMessage k s None m)) =
           (if getCurrentConferenceUrl s = data m then [] else [AppNavigate (data m)])
       \<and> (getCurrentConferenceUrl s = data m \<longrightarrow>
            dispatched (fst (onMessage k s None m) @ fst (onMessage k s None m)) = [])"
  using assms by (simp add: accepted_message dispatch_def skip_def)

theorem join_navigates_only_if_different_witness:
  "getCurrentConferenceUrl (in_conference ''https://x/room'') = JStr ''https://x/room''
   \<and> dispatched (fst (onMessage sample_constants (in_conference ''https://x/room'') None
         ((sample_message ''JOIN_CONFERENCE'' (JNum 5)) \<lparr> data := JStr ''https://x/room'' \<rparr>))) = []
   \<and> dispatched (fst (onMessage sample_constants (in_conference ''https://x/room'') None
         ((sample_message ''JOIN_CONFERENCE'' (JNum 5)) \<lparr> data := JStr ''https://x/other'' \<rparr>)))
       = [AppNavigate (JStr ''https://x/other'')]"
  using join_navigates_only_if_different
      [of "(sample_message ''JOIN_CONFERENCE'' (JNum 5)) \<lparr> data := JStr ''https://x/room'' \<rparr>"
          "in_conference ''https://x/room''" sample_constants]
    join_navigates_only_if_different
      [of "(sample_message ''JOIN_CONFERENCE'' (JNum 5)) \<lparr> data := JStr ''https://x/other'' \<rparr>"
          "in_conference ''https://x/room''" sample_constants]
  by (simp add: sample_message_def sample_constants_def in_conference_def idle_state_def
      current_url_cases strict_eq_def)

text \<open>
  C7 (mute command). An accepted \<open>SetMuted\<close> message dispatches exactly
  \<^verbatim>\<open>setAudioMuted(message.muted === 'true', true)\<close>: the first argument is true if and
  only if the \<open>muted\<close> field is the string \<open>true\<close>, the second, \<open>ensureTrack\<close>, is true.
  The mute command is taken to differ from the two commands the \<^verbatim>\<open>switch\<close> tests first.
\<close>

theorem set_muted_dispatch:
  assumes "truthy (sessionID m)"
    and "strict_eq (sessionID m) (watchos_sessionID s)"
    and "command m = JStr (CMD_SET_MUTED k)"
    and "CMD_SET_MUTED k \<noteq> CMD_HANG_UP k"
    and "CMD_SET_MUTED k \<noteq> CMD_JOIN_CONFERENCE k"
  shows "onMessage k s None m = ([Dispatch (SetAudioMuted (muted m = JStr ''true'') True)], None)"
  using assms by (simp add: accepted_message dispatch_def)

theorem set_muted_dispatch_witness:
  "onMessage sample_constants idle_state None
     ((sample_message ''SET_MUTED'' (JNum 5)) \<lparr> muted := JStr ''true'' \<rparr>)
     = ([Dispatch (SetAudioMuted True True)], None)
   \<and> onMessage sample_constants idle_state None
     ((sample_message ''SET_MUTED'' (JNum 5)) \<lparr> muted := JStr ''false'' \<rparr>)
     = ([Dispatch (SetAudioMuted False True)], None)"
  using set_muted_dispatch
      [of "(sample_message ''SET_MUTED'' (JNum 5)) \<lparr> muted := JStr ''true'' \<rparr>"
          idle_state sample_constants]
    set_muted_dispatch
      [of "(sample_message ''SET_MUTED'' (JNum 5)) \<lparr> muted := JStr ''false'' \<rparr>"
          idle_state sample_constants]
  by (simp add: sample_message_def sample_constants_def idle_state_def strict_eq_def)

text \<open>
  C10 (truthiness and strict equality of the session check). A message whose
  \<open>sessionID\<close> is falsy, or whose \<open>sessionID\<close> has another runtime type than the
  current session id, is dropped with the warning and dispatches nothing. The instances
  below: the number 0 and the empty string, each against a current session id strictly
  equal to it, and the string \<open>5\<close> against the number 5.
\<close>

theorem falsy_or_foreign_session_dropped:
  assumes "\<not> truthy (sessionID m) \<or> typeof_js (sessionID m) \<noteq> typeof_js (watchos_sessionID s)"
  shows "onMessage k s None m =
           ([LogWarn (outdated_warning (command m) (sessionID m) (watchos_sessionID s))], None)
         \<and> dispatched (fst (onMessage k s None m)) = []"
proof -
  from assms have "\<not> truthy (sessionID m) \<or> \<not> strict_eq (sessionID m) (watchos_sessionID s)"
    using typeof_differs_not_strict_eq by blast
  then show ?thesis
    by (simp add: rejected_message outdated_warning_def)
qed

theorem falsy_or_foreign_session_dropped_witness:
  "strict_eq (JNum 0) (JNum 0)
   \<and> dispatched (fst (onMessage sample_constants (idle_state \<lparr> watchos_sessionID := JNum 0 \<rparr>) None
         (sample_message ''HANG_UP'' (JNum 0)))) = []
   \<and> strict_eq (JStr '''') (JStr '''')
   \<and> dispatched (fst (onMessage sample_constants (idle_state \<lparr> watchos_sessionID := JStr '''' \<rparr>) None
         (sample_message ''HANG_UP'' (JStr '''')))) = []
   \<and> onMessage sample_constants idle_state None (sample_message ''HANG_UP'' (JStr ''5''))
       = ([LogWarn ''Ignoring outdated watch command: HANG_UP sessionID: 5 current session ID: 5''],
          None)"
  using falsy_or_foreign_session_dropped
      [of "sample_message ''HANG_UP'' (JNum 0)" "idle_state \<lparr> watchos_sessionID := JNum 0 \<rparr>"
          sample_constants]
    falsy_or_foreign_session_dropped
      [of "sample_message ''HANG_UP'' (JStr '''')" "idle_state \<lparr> watchos_sessionID := JStr '''' \<rparr>"
          sample_constants]
    falsy_or_foreign_session_dropped
      [of "sample_message ''HANG_UP'' (JStr ''5'')" idle_state sample_constants]
  by (simp add: sample_message_def idle_state_def strict_eq_def outdated_warning_def
      show_int_def show_nat.simps digit_char_def)

section \<open>The session manager\<close>

lemma new_session_id_differs: "new_session_id v \<noteq> v"
  by (cases v) (simp_all add: new_session_id_def)

lemma current_url_session_update [simp]:
  "getCurrentConferenceUrl (s \<lparr> watchos_sessionID := v \<rparr>) = getCurrentConferenceUrl s"
  by (simp add: getCurrentConferenceUrl_def)

lemma select_all_session_update [simp]:
  "select_all (s \<lparr> watchos_sessionID := v \<rparr>) = select_all s"
  by (simp add: select_all_def isAudioMuted_def)

lemma current_url_reduce [simp]:
  "getCurrentConferenceUrl (watchos_reduce a s) = getCurrentConferenceUrl s"
  by (cases a) (simp_all add: getCurrentConferenceUrl_def)

lemma select_all_reduce [simp]: "select_all (watchos_reduce a s) = select_all s"
  by (cases a) (simp_all add: select_all_def isAudioMuted_def getCurrentConferenceUrl_def)

lemma url_listener_effects:
  "fst (conferenceUrlListener reduce send k s) =
     Dispatch SetSessionId # fst (updateApplicationContext send k (reduce SetSessionId s))"
  by (simp add: conferenceUrlListener_def then_do_def dispatch_def)

lemma notify_dispatched:
  "dispatched (notify reduce send k (select_all s0) s) =
     (if getCurrentConferenceUrl s0 = getCurrentConferenceUrl s then [] else [SetSessionId])"
  by (simp add: notify_def select_all_def strict_eq_current_url dispatched_append
      recentListListener_def audioMutedListener_def url_listener_effects
      update_context_dispatches_nothing)

lemma step_session_id:
  assumes "observed st = select_all (current st)"
  shows "watchos_sessionID (current (fst (store_step send k st mu))) =
           (if getCurrentConferenceUrl (current st) = getCurrentConferenceUrl (commit mu (current st))
            then watchos_sessionID (current st)
            else new_session_id (watchos_sessionID (current st)))"
proof -
  have "watchos_sessionID (commit mu (current st)) = watchos_sessionID (current st)"
    by (cases mu) simp_all
  then show ?thesis
    using assms by (simp add: store_step_def Let_def notify_dispatched)
qed

lemma step_url:
  assumes "observed st = select_all (current st)"
  shows "getCurrentConferenceUrl (current (fst (store_step send k st mu))) =
           getCurrentConferenceUrl (commit mu (current st))"
  using assms by (simp add: store_step_def Let_def notify_dispatched)

lemma step_in_sync:
  assumes "observed st = select_all (current st)"
  shows "observed (fst (store_step send k st mu)) = select_all (current (fst (store_step send k st mu)))"
  using assms by (simp add: store_step_def Let_def notify_dispatched)

lemma step_id_changes_iff_url_changes:
  assumes "observed st = select_all (current st)"
  shows "(watchos_sessionID (current st) = watchos_sessionID (current (fst (store_step send k st mu))))
       = (getCurrentConferenceUrl (current st) =
            getCurrentConferenceUrl (current (fst (store_step send k st mu))))"
  using new_session_id_differs [of "watchos_sessionID (current st)"]
  by (auto simp add: step_session_id [OF assms] step_url [OF assms])

lemma run_changes:
  assumes "observed st = select_all (current st)"
  shows "changes (map (\<lambda>t. watchos_sessionID (current t)) (st # store_run send k st mus)) =
         changes (map (\<lambda>t. getCurrentConferenceUrl (current t)) (st # store_run send k st mus))"
  using assms
proof (induction mus arbitrary: st)
  case Nil
  show ?case by simp
next
  case (Cons mu mus)
  let ?st' = "fst (store_step send k st mu)"
  have sync: "observed ?st' = select_all (current ?st')"
    using Cons.prems by (rule step_in_sync)
  have ih: "changes (map (\<lambda>t. watchos_sessionID (current t)) (?st' # store_run send k ?st' mus)) =
         changes (map (\<lambda>t. getCurrentConferenceUrl (current t)) (?st' # store_run send k ?st' mus))"
    using sync by (rule Cons.IH)
  have here: "(watchos_sessionID (current st) = watchos_sessionID (current ?st'))
            = (getCurrentConferenceUrl (current st) = getCurrentConferenceUrl (current ?st'))"
    using Cons.prems by (rule step_id_changes_iff_url_changes)
  show ?case
    using ih here by simp
qed

lemma step_published_ids:
  "map ctx_sessionID (published (snd (store_step send k (init_store s) (SetInviteURL r u)))) =
     (if getCurrentConferenceUrl s = getCurrentConferenceUrl (commit (SetInviteURL r u) s)
      then []
      else [new_session_id (watchos_sessionID s)])"
  by (simp add: store_step_def Let_def init_store_def notify_def select_all_def
      strict_eq_current_url isAudioMuted_def url_listener_effects update_context_effects
      make_context_def split: option.split)

lemma run_change_flags:
  assumes "observed st = select_all (current st)"
  shows "change_flags (map (\<lambda>t. watchos_sessionID (current t)) (st # store_run send k st mus)) =
         change_flags (map (\<lambda>t. getCurrentConferenceUrl (current t)) (st # store_run send k st mus))"
  using assms
proof (induction mus arbitrary: st)
  case Nil
  show ?case by simp
next
  case (Cons mu mus)
  let ?st' = "fst (store_step send k st mu)"
  have sync: "observed ?st' = select_all (current ?st')"
    using Cons.prems by (rule step_in_sync)
  have ih: "change_flags (map (\<lambda>t. watchos_sessionID (current t)) (?st' # store_run send k ?st' mus)) =
         change_flags (map (\<lambda>t. getCurrentConferenceUrl (current t)) (?st' # store_run send k ?st' mus))"
    using sync by (rule Cons.IH)
  have here: "(watchos_sessionID (current st) = watchos_sessionID (current ?st'))
            = (getCurrentConferenceUrl (current st) = getCurrentConferenceUrl (current ?st'))"
    using Cons.prems by (rule step_id_changes_iff_url_changes)
  show ?case
    using ih here by simp
qed

lemma init_store_in_sync: "observed (init_store s) = select_all (current (init_store s))"
  by (simp add: init_store_def)

lemma listeners_dispatched:
  "dispatched (fst (conferenceUrlListener reduce send k s)) = [SetSessionId]"
  "dispatched (fst (recentListListener send k s)) = []"
  "dispatched (fst (audioMutedListener send k s)) = []"
  by (simp_all add: url_listener_effects recentListListener_def audioMutedListener_def
      update_context_dispatches_nothing)

text \<open>
  C3 (session rotation). On the source: the listener of the conference URL dispatches
  \<^verbatim>\<open>setSessionId()\<close> once each time it runs, the listeners of the recent list and of
  the mute flag dispatch nothing. On the store: after one step the session id of the
  state is the old one if the conference URL is the same as before the mutation
  (\<^verbatim>\<open>undefined\<close> being a value like any other) and a new one, different from the old,
  if it is not; a change of the mute flag or of the recent list leaves the session id
  as it is; the snapshot published on a change of the URL carries the new id. Along a
  run, the session id changes at exactly the steps at which the conference URL changes,
  so the two change equally often.
\<close>

theorem session_id_changes_once_per_url_change:
  "dispatched (fst (conferenceUrlListener reduce send k s)) = [SetSessionId]
   \<and> dispatched (fst (recentListListener send k s)) = []
   \<and> dispatched (fst (audioMutedListener send k s)) = []
   \<and> watchos_sessionID (current (fst (store_step send k (init_store s) mu))) =
       (if getCurrentConferenceUrl s = getCurrentConferenceUrl (commit mu s)
        then watchos_sessionID s
        else new_session_id (watchos_sessionID s))
   \<and> new_session_id (watchos_sessionID s) \<noteq> watchos_sessionID s
   \<and> watchos_sessionID (current (fst (store_step send k (init_store s) (SetMutedFlag b))))
       = watchos_sessionID s
   \<and> watchos_sessionID (current (fst (store_step send k (init_store s) (EditRecentList xs))))
       = watchos_sessionID s
   \<and> map ctx_sessionID (published (snd (store_step send k (init_store s) (SetInviteURL r u)))) =
       (if getCurrentConferenceUrl s = getCurrentConferenceUrl (commit (SetInviteURL r u) s)
        then []
        else [new_session_id (watchos_sessionID s)])
   \<and> change_flags (map (\<lambda>t. watchos_sessionID (current t))
                     (init_store s # store_run send k (init_store s) mus)) =
     change_flags (map (\<lambda>t. getCurrentConferenceUrl (current t))
                     (init_store s # store_run send k (init_store s) mus))
   \<and> changes (map (\<lambda>t. watchos_sessionID (current t))
                 (init_store s # store_run send k (init_store s) mus)) =
     changes (map (\<lambda>t. getCurrentConferenceUrl (current t))
                 (init_store s # store_run send k (init_store s) mus))"
proof -
  let ?st = "init_store s"
  have sync: "observed ?st = select_all (current ?st)"
    by (rule init_store_in_sync)
  have cur: "current ?st = s"
    by (simp add: init_store_def)
  have step: "watchos_sessionID (current (fst (store_step send k ?st m))) =
       (if getCurrentConferenceUrl s = getCurrentConferenceUrl (commit m s)
        then watchos_sessionID s
        else new_session_id (watchos_sessionID s))" for m
    using step_session_id [OF sync] by (simp add: cur)
  have muted: "getCurrentConferenceUrl (s \<lparr> audio_muted := b \<rparr>) = getCurrentConferenceUrl s"
    by (simp add: getCurrentConferenceUrl_def)
  have recent: "getCurrentConferenceUrl (s \<lparr> features_recent_list := xs \<rparr>) = getCurrentConferenceUrl s"
    by (simp add: getCurrentConferenceUrl_def)
  have c1: "dispatched (fst (conferenceUrlListener reduce send k s)) = [SetSessionId]"
    and c2: "dispatched (fst (recentListListener send k s)) = []"
    and c3: "dispatched (fst (audioMutedListener send k s)) = []"
    by (rule listeners_dispatched)+
  have c4: "watchos_sessionID (current (fst (store_step send k ?st mu))) =
       (if getCurrentConferenceUrl s = getCurrentConferenceUrl (commit mu s)
        then watchos_sessionID s
        else new_session_id (watchos_sessionID s))"
    by (rule step)
  have c5: "new_session_id (watchos_sessionID s) \<noteq> watchos_sessionID s"
    by (rule new_session_id_differs)
  have c6: "watchos_sessionID (current (fst (store_step send k ?st (SetMutedFlag b))))
       = watchos_sessionID s"
    by (simp add: step muted)
  have c7: "watchos_sessionID (current (fst (store_step send k ?st (EditRecentList xs))))
       = watchos_sessionID s"
    by (simp add: step recent)
  have c8: "map ctx_sessionID (published (snd (store_step send k ?st (SetInviteURL r u)))) =
       (if getCurrentConferenceUrl s = getCurrentConferenceUrl (commit (SetInviteURL r u) s)
        then []
        else [new_session_id (watchos_sessionID s)])"
    by (rule step_published_ids)
  have c9: "change_flags (map (\<lambda>t. watchos_sessionID (current t)) (?st # store_run send k ?st mus)) =
     change_flags (map (\<lambda>t. getCurrentConferenceUrl (current t)) (?st # store_run send k ?st mus))"
    using sync by (rule run_change_flags)
  have c10: "changes (map (\<lambda>t. watchos_sessionID (current t)) (?st # store_run send k ?st mus)) =
     changes (map (\<lambda>t. getCurrentConferenceUrl (current t)) (?st # store_run send k ?st mus))"
    using sync by (rule run_changes)
  from c1 c2 c3 c4 c5 c6 c7 c8 c9 c10 show ?thesis
    by blast
qed

theorem session_id_changes_once_per_url_change_witness:
  "map (\<lambda>t. getCurrentConferenceUrl (current t))
     (init_store idle_state # store_run send_ok sample_constants (init_store idle_state)
        [SetInviteURL True (Some ''https://x/r1''), SetInviteURL True (Some ''https://x/r1''),
         SetMutedFlag True, EditRecentList [''z''], SetInviteURL True (Some ''https://x/r2''),
         SetInviteURL False None])
     = [JUndefined, JStr ''https://x/r1'', JStr ''https://x/r1'', JStr ''https://x/r1'',
        JStr ''https://x/r1'', JStr ''https://x/r2'', JUndefined]
   \<and> map (\<lambda>t. watchos_sessionID (current t))
     (init_store idle_state # store_run send_ok sample_constants (init_store idle_state)
        [SetInviteURL True (Some ''https://x/r1''), SetInviteURL True (Some ''https://x/r1''),
         SetMutedFlag True, EditRecentList [''z''], SetInviteURL True (Some ''https://x/r2''),
         SetInviteURL False None])
     = [JNum 5, JNum 6, JNum 6, JNum 6, JNum 6, JNum 7, JNum 8]
   \<and> map ctx_sessionID (published (snd (store_step send_ok sample_constants (init_store idle_state)
        (SetInviteURL True (Some ''https://x/r1''))))) = [JNum 6]"
  using session_id_changes_once_per_url_change
    [where send = send_ok and k = sample_constants and s = idle_state
       and mu = "SetInviteURL True (Some ''https://x/r1'')"
       and r = True and u = "Some ''https://x/r1''"
       and mus = "[SetInviteURL True (Some ''https://x/r1''), SetInviteURL True (Some ''https://x/r1''),
         SetMutedFlag True, EditRecentList [''z''], SetInviteURL True (Some ''https://x/r2''),
         SetInviteURL False None]"]
  by (simp add: store_step_def Let_def init_store_def notify_def select_all_def
      current_url_cases isAudioMuted_def idle_state_def new_session_id_def strict_eq_def
      url_listener_effects recentListListener_def audioMutedListener_def
      update_context_effects send_ok_def)

end
